theory Spec2Isabelle
  imports Main
begin

section \<open>JavaScript values used by the date input\<close>

text \<open>
  A JavaScript number is either NaN or, in this development, an integer: every number the
  widget computes with (segment values, month and day numbers, millisecond time values)
  is integral.
\<close>

datatype jsnum = NaN | Num int

fun isNaN :: "jsnum \<Rightarrow> bool" where
  "isNaN NaN = True"
| "isNaN (Num _) = False"

text \<open>The relational operators of JavaScript are false as soon as one side is NaN.\<close>

fun jsLess :: "jsnum \<Rightarrow> jsnum \<Rightarrow> bool" where
  "jsLess (Num a) (Num b) = (a < b)"
| "jsLess _ _ = False"

fun jsSub :: "jsnum \<Rightarrow> jsnum \<Rightarrow> jsnum" where
  "jsSub (Num a) (Num b) = Num (a - b)"
| "jsSub _ _ = NaN"


subsection \<open>parseInt(string, 10)\<close>

definition isWhiteSpace :: "char \<Rightarrow> bool" where
  "isWhiteSpace c = (c \<in> set [CHR '' '', CHR 0x09, CHR 0x0A, CHR 0x0B, CHR 0x0C, CHR 0x0D])"

text \<open>\<open>indexOf\<close> of arrays and strings: the first position of the element, or -1.\<close>

fun indexOf :: "'a list \<Rightarrow> 'a \<Rightarrow> int" where
  "indexOf [] x = -1"
| "indexOf (y # ys) x =
     (if y = x then 0 else (let i = indexOf ys x in if i < 0 then -1 else i + 1))"

text \<open>The value of a decimal digit is its position among the ten digits.\<close>

definition digitOf :: "char \<Rightarrow> int option" where
  "digitOf c = (let i = indexOf ''0123456789'' c in if i < 0 then None else Some i)"

definition isDigit :: "char \<Rightarrow> bool" where
  "isDigit c = (digitOf c \<noteq> None)"

fun digitsValue :: "int \<Rightarrow> string \<Rightarrow> int" where
  "digitsValue acc [] = acc"
| "digitsValue acc (c # cs) =
     digitsValue (acc * 10 + (case digitOf c of Some d \<Rightarrow> d | None \<Rightarrow> 0)) cs"

text \<open>
  \<open>parseInt(s, 10)\<close>: leading white space is skipped, one sign is accepted, the longest
  run of decimal digits is read, and the result is NaN when that run is empty.
\<close>

definition parseInt :: "string \<Rightarrow> jsnum" where
  "parseInt s =
     (let t = dropWhile isWhiteSpace s;
          neg = (t \<noteq> [] \<and> hd t = CHR ''-'');
          u = (if t \<noteq> [] \<and> (hd t = CHR ''-'' \<or> hd t = CHR ''+'') then tl t else t);
          ds = takeWhile isDigit u
      in if ds = [] then NaN
         else Num (if neg then - digitsValue 0 ds else digitsValue 0 ds))"

subsection \<open>Date objects\<close>

text \<open>
  A \<open>Date\<close> is held by its local civil fields: full year, month index (0 to 11), day of
  the month and millisecond of the day; \<open>InvalidDate\<close> is the Date whose time value is NaN.
  The local time zone is taken to be UTC, so that the civil fields and the time value
  determine each other.
\<close>

datatype jsdate = InvalidDate | DateTime int int int int

definition isLeapYear :: "int \<Rightarrow> bool" where
  "isLeapYear y = (y mod 4 = 0 \<and> (y mod 100 \<noteq> 0 \<or> y mod 400 = 0))"

definition daysInMonth :: "int \<Rightarrow> int \<Rightarrow> int" where
  "daysInMonth y m =
     (if m = 1 then (if isLeapYear y then 29 else 28)
      else if m = 3 \<or> m = 5 \<or> m = 8 \<or> m = 10 then 30 else 31)"

definition validDate :: "jsdate \<Rightarrow> bool" where
  "validDate d =
     (case d of InvalidDate \<Rightarrow> False
      | DateTime y m dd ms \<Rightarrow>
          0 \<le> m \<and> m < 12 \<and> 1 \<le> dd \<and> dd \<le> daysInMonth y m \<and> 0 \<le> ms \<and> ms < 86400000)"

text \<open>The time value (milliseconds since 1970-01-01), as ECMAScript computes it.\<close>

definition dayFromYear :: "int \<Rightarrow> int" where
  "dayFromYear y =
     365 * (y - 1970) + (y - 1969) div 4 - (y - 1901) div 100 + (y - 1601) div 400"

definition daysBeforeMonth :: "int \<Rightarrow> int \<Rightarrow> int" where
  "daysBeforeMonth y m = sum_list (map (daysInMonth y) [0..m - 1])"

definition msPerDay :: int where
  "msPerDay = 86400000"

definition timeValue :: "int \<Rightarrow> int \<Rightarrow> int \<Rightarrow> int \<Rightarrow> int" where
  "timeValue y m dd ms =
     (dayFromYear y + daysBeforeMonth y m + dd - 1) * msPerDay + ms"

fun getTime :: "jsdate \<Rightarrow> jsnum" where
  "getTime InvalidDate = NaN"
| "getTime (DateTime y m dd ms) = Num (timeValue y m dd ms)"

text \<open>TimeClip: a time value beyond 8.64e15 milliseconds from the epoch is no date.\<close>

definition timeClip :: "jsdate \<Rightarrow> jsdate" where
  "timeClip d =
     (case getTime d of NaN \<Rightarrow> InvalidDate
      | Num t \<Rightarrow> if \<bar>t\<bar> \<le> 8640000000000000 then d else InvalidDate)"

text \<open>
  A day number outside its month is carried into the neighbouring months, one month at
  a time, as adding days to the first of the month does.
\<close>

function carryDays :: "int \<Rightarrow> int \<Rightarrow> int \<Rightarrow> int \<times> int \<times> int" where
  "carryDays y m d =
     (if d < 1 then
        (let y' = (if m \<le> 0 then y - 1 else y); m' = (if m \<le> 0 then 11 else m - 1)
         in carryDays y' m' (d + daysInMonth y' m'))
      else if daysInMonth y m < d then
        carryDays (if m \<ge> 11 then y + 1 else y) (if m \<ge> 11 then 0 else m + 1)
          (d - daysInMonth y m)
      else (y, m, d))"
  by pat_completeness auto
termination
  by (relation "measure (\<lambda>(y, m, d). if d < 1 then nat (32 - d) else nat d)")
     (auto simp: daysInMonth_def)

declare carryDays.simps [simp del]

text \<open>
  \<open>new Date(year, monthIndex, day)\<close>: a year from 0 to 99 stands for 1900 + year, the
  month index carries into the year, the day carries into the months, and the result is
  clipped to the representable range.
\<close>

fun newDate :: "jsnum \<Rightarrow> jsnum \<Rightarrow> jsnum \<Rightarrow> jsdate" where
  "newDate (Num y) (Num m) (Num d) =
     (let yr = (if 0 \<le> y \<and> y \<le> 99 then 1900 + y else y);
          ym = yr + m div 12;
          mn = m mod 12
      in case carryDays ym mn d of (y', m', d') \<Rightarrow> timeClip (DateTime y' m' d' 0))"
| "newDate _ _ _ = InvalidDate"

text \<open>
  The accessors of the date utilities on a Date object: \<open>getFullYear()\<close>,
  \<open>getMonth() + 1\<close> and \<open>getDate()\<close>, each NaN on an invalid date.
\<close>

fun getYear :: "jsdate \<Rightarrow> jsnum" where
  "getYear InvalidDate = NaN"
| "getYear (DateTime y m dd ms) = Num y"

fun getMonthHuman :: "jsdate \<Rightarrow> jsnum" where
  "getMonthHuman InvalidDate = NaN"
| "getMonthHuman (DateTime y m dd ms) = Num (m + 1)"

fun getDate :: "jsdate \<Rightarrow> jsnum" where
  "getDate InvalidDate = NaN"
| "getDate (DateTime y m dd ms) = Num dd"

section \<open>Date-range derivation\<close>

subsection \<open>Values, bounds and errors\<close>

text \<open>
  A raw candidate is what a caller may hand over as a value: nothing (\<open>undefined\<close> or
  \<open>null\<close>), a string, or a Date object. The \<open>value\<close> property is one candidate or an
  array of candidates.
\<close>

datatype raw = Undefined | Null | Str string | DateObj jsdate

datatype dvalue = Single raw | Array "raw list"

datatype error =
    InvalidDateError raw
  | InvalidRangeType "string option"
  | InvalidReturnValue
  | UnsupportedToken string

text \<open>
  What the surroundings supply: the platform's parser of date strings (\<open>new Date(string)\<close>,
  implementation-defined outside the ISO format), and the first year of the decade a
  year belongs to, a convention of the date helpers that is not part of these sources.
\<close>

record env =
  dateParse :: "string \<Rightarrow> jsdate"
  decadeStartYear :: "int \<Rightarrow> int"

text \<open>\<open>new Date(-8.64e15)\<close> and \<open>new Date(8.64e15)\<close>, the ends of the range of time values.\<close>

definition defaultMinDate :: jsdate where
  "defaultMinDate = DateTime (-271821) 3 20 0"

definition defaultMaxDate :: jsdate where
  "defaultMaxDate = DateTime 275760 8 13 0"

definition allViews :: "string list" where
  "allViews = [''century'', ''decade'', ''year'', ''month'']"

definition allValueTypes :: "string list" where
  "allValueTypes = drop 1 allViews @ [''day'']"

text \<open>Reading an array at an index that is not one of its positions gives \<open>undefined\<close>.\<close>

definition arrayAt :: "'a list \<Rightarrow> int \<Rightarrow> 'a option" where
  "arrayAt xs i = (if 0 \<le> i \<and> i < int (length xs) then Some (xs ! nat i) else None)"

definition datesAreDifferent :: "jsdate option \<Rightarrow> jsdate option \<Rightarrow> bool" where
  "datesAreDifferent date1 date2 =
     (case (date1, date2) of
        (Some d1, None) \<Rightarrow> True
      | (None, Some d2) \<Rightarrow> True
      | (Some d1, Some d2) \<Rightarrow>
          (case (getTime d1, getTime d2) of (Num a, Num b) \<Rightarrow> a \<noteq> b | _ \<Rightarrow> True)
      | (None, None) \<Rightarrow> False)"

text \<open>Returns value type that can be returned with currently applied settings.\<close>

definition getValueType :: "string \<Rightarrow> string option" where
  "getValueType maxDetail = arrayAt allValueTypes (indexOf allViews maxDetail)"

definition getValueFromRange :: "dvalue \<Rightarrow> nat \<Rightarrow> raw" where
  "getValueFromRange valueOrArrayOfValues index =
     (case valueOrArrayOfValues of
        Array xs \<Rightarrow> (case arrayAt xs (int index) of Some r \<Rightarrow> r | None \<Rightarrow> Undefined)
      | Single r \<Rightarrow> r)"

text \<open>
  \<open>!rawValue\<close> holds of \<open>undefined\<close>, \<open>null\<close> and the empty string; a Date object is
  never falsy, its time value may still be NaN.
\<close>

fun falsy :: "raw \<Rightarrow> bool" where
  "falsy Undefined = True"
| "falsy Null = True"
| "falsy (Str s) = (s = [])"
| "falsy (DateObj d) = False"

text \<open>
  \<open>new Date(rawValue)\<close> on one argument: a string is parsed by the platform, a Date object
  is copied, \<open>null\<close> is the epoch and \<open>undefined\<close> is no date.
\<close>

fun newDateOf :: "env \<Rightarrow> raw \<Rightarrow> jsdate" where
  "newDateOf E (Str s) = dateParse E s"
| "newDateOf E (DateObj d) = d"
| "newDateOf E Null = DateTime 1970 0 1 0"
| "newDateOf E Undefined = InvalidDate"

definition parseAndValidateDate :: "env \<Rightarrow> raw \<Rightarrow> error + jsdate option" where
  "parseAndValidateDate E rawValue =
     (if falsy rawValue then Inr None
      else (let valueDate = newDateOf E rawValue
            in if isNaN (getTime valueDate) then Inl (InvalidDateError rawValue)
               else Inr (Some valueDate)))"

definition getValueFrom :: "env \<Rightarrow> dvalue \<Rightarrow> error + jsdate option" where
  "getValueFrom E v = parseAndValidateDate E (getValueFromRange v 0)"

definition getValueTo :: "env \<Rightarrow> dvalue \<Rightarrow> error + jsdate option" where
  "getValueTo E v = parseAndValidateDate E (getValueFromRange v 1)"

subsection \<open>The helpers of \<open>shared/dates\<close> and \<open>shared/utils\<close>\<close>

text \<open>
  Modelled from the spec: \<open>getBegin\<close> of \<open>shared/dates\<close>, which is not among the sources.
  The start of the unit the range type names: the first millisecond of the day, of the
  first day of the month, of the first day of the year, or of the first year of the
  decade. The spec gives no result for a range type that is none of the four; it is
  modelled as a failure, so that no date is made up.
\<close>

definition getBegin :: "env \<Rightarrow> string option \<Rightarrow> jsdate \<Rightarrow> error + jsdate" where
  "getBegin E rangeType date =
     (case date of
        InvalidDate \<Rightarrow> Inr InvalidDate
      | DateTime y m dd ms \<Rightarrow>
          if rangeType = Some ''decade'' then Inr (DateTime (decadeStartYear E y) 0 1 0)
          else if rangeType = Some ''year'' then Inr (DateTime y 0 1 0)
          else if rangeType = Some ''month'' then Inr (DateTime y m 1 0)
          else if rangeType = Some ''day'' then Inr (DateTime y m dd 0)
          else Inl (InvalidRangeType rangeType))"

text \<open>
  Modelled from the spec: \<open>getEnd\<close> of \<open>shared/dates\<close>, which is not among the sources.
  The end of the unit the range type names: the last millisecond of the day, of the
  last day of the month, of the last day of the year, or of the last year of the decade.
\<close>

definition getEnd :: "env \<Rightarrow> string option \<Rightarrow> jsdate \<Rightarrow> error + jsdate" where
  "getEnd E rangeType date =
     (case date of
        InvalidDate \<Rightarrow> Inr InvalidDate
      | DateTime y m dd ms \<Rightarrow>
          if rangeType = Some ''decade''
          then Inr (DateTime (decadeStartYear E y + 9) 11 31 86399999)
          else if rangeType = Some ''year'' then Inr (DateTime y 11 31 86399999)
          else if rangeType = Some ''month''
          then Inr (DateTime y m (daysInMonth y m) 86399999)
          else if rangeType = Some ''day'' then Inr (DateTime y m dd 86399999)
          else Inl (InvalidRangeType rangeType))"

text \<open>
  Modelled from the spec: \<open>between\<close> of \<open>shared/utils\<close>, which is not among the sources.
  The value, unless it lies outside the bounds, in which case the nearest bound; a bound
  that is not given does not bound. Dates compare by their time values.
\<close>

definition between :: "jsdate \<Rightarrow> jsdate option \<Rightarrow> jsdate option \<Rightarrow> jsdate" where
  "between v minD maxD =
     (case minD of
        Some lo \<Rightarrow>
          if jsLess (getTime v) (getTime lo) then lo
          else (case maxD of
                  Some hi \<Rightarrow> if jsLess (getTime hi) (getTime v) then hi else v
                | None \<Rightarrow> v)
      | None \<Rightarrow>
          (case maxD of
             Some hi \<Rightarrow> if jsLess (getTime hi) (getTime v) then hi else v
           | None \<Rightarrow> v))"

subsection \<open>Start and end of the range of a value\<close>

definition getDetailValueFrom ::
  "env \<Rightarrow> dvalue \<Rightarrow> jsdate option \<Rightarrow> jsdate option \<Rightarrow> string \<Rightarrow> error + jsdate option" where
  "getDetailValueFrom E v minDate maxDate maxDetail =
     (case getValueFrom E v of
        Inl e \<Rightarrow> Inl e
      | Inr None \<Rightarrow> Inr None
      | Inr (Some valueFrom) \<Rightarrow>
          (case getBegin E (getValueType maxDetail) valueFrom of
             Inl e \<Rightarrow> Inl e
           | Inr detailValueFrom \<Rightarrow> Inr (Some (between detailValueFrom minDate maxDate))))"

definition getDetailValueTo ::
  "env \<Rightarrow> dvalue \<Rightarrow> jsdate option \<Rightarrow> jsdate option \<Rightarrow> string \<Rightarrow> error + jsdate option" where
  "getDetailValueTo E v minDate maxDate maxDetail =
     (case getValueTo E v of
        Inl e \<Rightarrow> Inl e
      | Inr None \<Rightarrow> Inr None
      | Inr (Some valueTo) \<Rightarrow>
          (case getEnd E (getValueType maxDetail) valueTo of
             Inl e \<Rightarrow> Inl e
           | Inr detailValueTo \<Rightarrow> Inr (Some (between detailValueTo minDate maxDate))))"

text \<open>A date or \<open>null\<close> as an element of a result array.\<close>

fun rawOf :: "jsdate option \<Rightarrow> raw" where
  "rawOf None = Null"
| "rawOf (Some d) = DateObj d"

definition getDetailValueArray ::
  "env \<Rightarrow> dvalue \<Rightarrow> jsdate option \<Rightarrow> jsdate option \<Rightarrow> string \<Rightarrow> error + raw list" where
  "getDetailValueArray E v minDate maxDate maxDetail =
     (case v of
        Array xs \<Rightarrow> Inr xs
      | Single r \<Rightarrow>
          (case getDetailValueFrom E v minDate maxDate maxDetail of
             Inl e \<Rightarrow> Inl e
           | Inr f \<Rightarrow>
               (case getDetailValueTo E v minDate maxDate maxDetail of
                  Inl e \<Rightarrow> Inl e
                | Inr t \<Rightarrow> Inr [rawOf f, rawOf t])))"

section \<open>The date input\<close>

subsection \<open>Properties, state and form elements\<close>

record props =
  p_value :: dvalue
  p_minDate :: "jsdate option"
  p_maxDate :: "jsdate option"
  p_maxDetail :: string
  p_returnValue :: string
  p_onChange :: bool
  p_isCalendarOpen :: "bool option"
  p_autoFocus :: bool
  p_showLeadingZeros :: bool

text \<open>
  The callback \<open>onChange\<close> is given or not (\<open>p_onChange\<close>); calling it is the result of
  the handlers below. A segment of the state is \<open>null\<close> (\<open>None\<close>) or a number.
\<close>

record state =
  st_year :: "jsnum option"
  st_month :: "jsnum option"
  st_day :: "jsnum option"
  st_value :: "jsdate option"
  st_isCalendarOpen :: "bool option"

text \<open>
  A DOM element as the handlers read it: tag name, \<open>type\<close>, \<open>name\<close>, the text it holds,
  its \<open>max\<close> attribute, and what \<open>checkValidity()\<close> answers.
\<close>

record element =
  el_tagName :: string
  el_type :: string
  el_name :: string
  el_value :: string
  el_max :: "string option"
  el_valid :: bool

text \<open>The references the widget keeps to its segment inputs, each possibly unset.\<close>

record refs =
  dayInput :: "element option"
  monthInput :: "element option"
  yearInput :: "element option"

text \<open>What a handler hands to the change callback: a date or \<open>null\<close>, or an array.\<close>

datatype processed = PDate "jsdate option" | PArray "raw list"

subsection \<open>Resynchronising the segments from the properties\<close>

text \<open>The segments (year, human month, day) of the next value, all \<open>null\<close> without one.\<close>

definition segmentsOf :: "jsdate option \<Rightarrow> jsnum option \<times> jsnum option \<times> jsnum option" where
  "segmentsOf nextValue =
     (case nextValue of
        Some d \<Rightarrow> (Some (getYear d), Some (getMonthHuman d), Some (getDate d))
      | None \<Rightarrow> (None, None, None))"

definition getDerivedStateFromProps :: "env \<Rightarrow> props \<Rightarrow> state \<Rightarrow> error + state" where
  "getDerivedStateFromProps E nextProps prevState =
     (let minDate = p_minDate nextProps; maxDate = p_maxDate nextProps;
          maxDetail = p_maxDetail nextProps;
          flagChanged = (p_isCalendarOpen nextProps \<noteq> st_isCalendarOpen prevState);
          s1 = (if flagChanged
                then prevState\<lparr>st_isCalendarOpen := p_isCalendarOpen nextProps\<rparr>
                else prevState);
          from = (\<lambda>v. getDetailValueFrom E (Single (rawOf v)) minDate maxDate maxDetail);
          to = (\<lambda>v. getDetailValueTo E (Single (rawOf v)) minDate maxDate maxDetail);
          update = (\<lambda>nextValue.
            case segmentsOf nextValue of
              (y, m, d) \<Rightarrow> s1\<lparr>st_year := y, st_month := m, st_day := d, st_value := nextValue\<rparr>)
      in case getDetailValueFrom E (p_value nextProps) minDate maxDate maxDetail of
           Inl e \<Rightarrow> Inl e
         | Inr nextValue \<Rightarrow>
             if flagChanged \<and> p_isCalendarOpen nextProps = Some True
             then Inr (update nextValue)
             else (case (from nextValue, from (st_value prevState)) of
                     (Inl e, _) \<Rightarrow> Inl e
                   | (_, Inl e) \<Rightarrow> Inl e
                   | (Inr f1, Inr f2) \<Rightarrow>
                       if datesAreDifferent f1 f2 then Inr (update nextValue)
                       else (case (to nextValue, to (st_value prevState)) of
                               (Inl e, _) \<Rightarrow> Inl e
                             | (_, Inl e) \<Rightarrow> Inl e
                             | (Inr t1, Inr t2) \<Rightarrow>
                                 if datesAreDifferent t1 t2 then Inr (update nextValue)
                                 else Inr s1)))"

subsection \<open>Value projection\<close>

text \<open>Gets current value in a desired format.\<close>

definition getProcessedValue :: "env \<Rightarrow> props \<Rightarrow> dvalue \<Rightarrow> error + processed" where
  "getProcessedValue E P v =
     (let minDate = p_minDate P; maxDate = p_maxDate P; maxDetail = p_maxDetail P
      in if p_returnValue P = ''start''
         then (case getDetailValueFrom E v minDate maxDate maxDetail of
                 Inl e \<Rightarrow> Inl e | Inr d \<Rightarrow> Inr (PDate d))
         else if p_returnValue P = ''end''
         then (case getDetailValueTo E v minDate maxDate maxDetail of
                 Inl e \<Rightarrow> Inl e | Inr d \<Rightarrow> Inr (PDate d))
         else if p_returnValue P = ''range''
         then (case getDetailValueArray E v minDate maxDate maxDetail of
                 Inl e \<Rightarrow> Inl e | Inr a \<Rightarrow> Inr (PArray a))
         else Inl InvalidReturnValue)"

subsection \<open>Moving the focus\<close>









subsection \<open>Segment edits\<close>

text \<open>Called when non-native date input is changed: the state after \<open>setState\<close>.\<close>

definition onChange :: "state \<Rightarrow> string \<Rightarrow> string \<Rightarrow> state" where
  "onChange st name v =
     (let n = (if v \<noteq> [] then Some (parseInt v) else None)
      in if name = ''year'' then st\<lparr>st_year := n\<rparr>
         else if name = ''month'' then st\<lparr>st_month := n\<rparr>
         else if name = ''day'' then st\<lparr>st_day := n\<rparr>
         else st)"

definition formElements :: "refs \<Rightarrow> element list" where
  "formElements R = List.map_filter (\<lambda>r. r) [dayInput R, monthInput R, yearInput R]"

definition valuesOf :: "element list \<Rightarrow> (string \<rightharpoonup> string)" where
  "valuesOf els = foldl (\<lambda>values formElement.
      values(el_name formElement \<mapsto> el_value formElement)) Map.empty els"

text \<open>\<open>parseInt(values.year, 10)\<close>: a missing entry reads as \<open>undefined\<close>, which is no number.\<close>

definition parseIntOf :: "string option \<Rightarrow> jsnum" where
  "parseIntOf v = (case v of None \<Rightarrow> NaN | Some s \<Rightarrow> parseInt s)"

text \<open>\<open>parseInt(values.month || 1, 10)\<close>: a missing or empty entry reads as 1.\<close>

definition parseIntOr1 :: "string option \<Rightarrow> jsnum" where
  "parseIntOr1 v = (case v of None \<Rightarrow> Num 1 | Some s \<Rightarrow> if s = [] then Num 1 else parseInt s)"

definition proposedValue :: "element list \<Rightarrow> jsdate" where
  "proposedValue els =
     (let values = valuesOf els;
          year = parseIntOf (values ''year'');
          month = parseIntOr1 (values ''month'');
          day = parseIntOr1 (values ''day'')
      in newDate year (jsSub month (Num 1)) day)"

text \<open>
  Called after internal onChange. Checks input validity. If all fields are valid,
  calls props.onChange. The result is the call made, if any: its two arguments.
\<close>

definition onChangeExternal :: "env \<Rightarrow> props \<Rightarrow> refs \<Rightarrow> error + (processed \<times> bool) option" where
  "onChangeExternal E P R =
     (if \<not> p_onChange P then Inr None
      else (let els = formElements R
            in if list_all (\<lambda>formElement. el_value formElement = []) els
               then Inr (Some (PDate None, False))
               else if list_all (\<lambda>formElement.
                         el_value formElement \<noteq> [] \<and> el_valid formElement) els
               then (case getProcessedValue E P (Single (DateObj (proposedValue els))) of
                       Inl e \<Rightarrow> Inl e
                     | Inr processedValue \<Rightarrow> Inr (Some (processedValue, False)))
               else Inr None))"

subsection \<open>Rendering the segments\<close>

datatype component =
    DayInputEl bool bool "jsnum option" "jsnum option" "jsnum option"
  | MonthSelectEl bool bool "jsnum option" "jsnum option"
  | MonthInputEl bool bool "jsnum option" "jsnum option"
  | YearInputEl bool "jsnum option"

text \<open>
  \<open>DayInputEl autoFocus showLeadingZeros value month year\<close>,
  \<open>MonthSelectEl autoFocus short value year\<close>,
  \<open>MonthInputEl autoFocus showLeadingZeros value year\<close> and
  \<open>YearInputEl autoFocus value\<close> are the elements the renderers create.
\<close>

definition renderDay :: "props \<Rightarrow> state \<Rightarrow> string \<Rightarrow> nat \<Rightarrow> error + component" where
  "renderDay P st currentMatch index =
     (if currentMatch \<noteq> [] \<and> length currentMatch > 2
      then Inl (UnsupportedToken currentMatch)
      else (let showLeadingZerosFromFormat = (currentMatch \<noteq> [] \<and> length currentMatch = 2)
            in Inr (DayInputEl (index = 0 \<and> p_autoFocus P)
                      (showLeadingZerosFromFormat \<or> p_showLeadingZeros P)
                      (st_day st) (st_month st) (st_year st))))"

definition renderMonth :: "props \<Rightarrow> state \<Rightarrow> string \<Rightarrow> nat \<Rightarrow> error + component" where
  "renderMonth P st currentMatch index =
     (if currentMatch \<noteq> [] \<and> length currentMatch > 4
      then Inl (UnsupportedToken currentMatch)
      else if length currentMatch > 2
      then Inr (MonthSelectEl (index = 0 \<and> p_autoFocus P) (length currentMatch = 3)
                  (st_month st) (st_year st))
      else (let showLeadingZerosFromFormat = (currentMatch \<noteq> [] \<and> length currentMatch = 2)
            in Inr (MonthInputEl (index = 0 \<and> p_autoFocus P)
                      (showLeadingZerosFromFormat \<or> p_showLeadingZeros P)
                      (st_month st) (st_year st))))"

definition renderYear :: "props \<Rightarrow> state \<Rightarrow> string \<Rightarrow> nat \<Rightarrow> error + component" where
  "renderYear P st currentMatch index =
     Inr (YearInputEl (index = 0 \<and> p_autoFocus P) (st_year st))"

section \<open>The month segment\<close>

text \<open>What \<open>a && b && c\<close> evaluates to in the bounds below.\<close>

datatype jsval = VUndefined | VFalse | VNum jsnum

text \<open>\<open>year === n\<close>: \<open>null\<close> equals no number, and NaN equals nothing.\<close>

fun strictEq :: "jsnum option \<Rightarrow> jsnum \<Rightarrow> bool" where
  "strictEq (Some (Num a)) (Num b) = (a = b)"
| "strictEq _ _ = False"

text \<open>\<open>date && year === getYear(date) && getMonthHuman(date)\<close>\<close>

definition monthOfYear :: "jsdate option \<Rightarrow> jsnum option \<Rightarrow> jsval" where
  "monthOfYear date year =
     (case date of
        None \<Rightarrow> VUndefined
      | Some d \<Rightarrow> if strictEq year (getYear d) then VNum (getMonthHuman d) else VFalse)"

text \<open>
  Modelled from the spec: \<open>min\<close> of \<open>shared/utils\<close>, which is not among the sources.
  The least of the arguments that are numbers; an argument that is no number
  (\<open>undefined\<close>, \<open>false\<close>, NaN) does not count.
\<close>

definition min_util :: "int \<Rightarrow> jsval \<Rightarrow> int" where
  "min_util a v = (case v of VNum (Num b) \<Rightarrow> min a b | _ \<Rightarrow> a)"

text \<open>
  Modelled from the spec: \<open>max\<close> of \<open>shared/utils\<close>, which is not among the sources.
  The greatest of the arguments that are numbers.
\<close>

definition max_util :: "int \<Rightarrow> jsval \<Rightarrow> int" where
  "max_util a v = (case v of VNum (Num b) \<Rightarrow> max a b | _ \<Rightarrow> a)"

text \<open>The properties \<open>max\<close>, \<open>min\<close> and \<open>name\<close> the numeric month field is created with.\<close>

record inputProps =
  ip_max :: int
  ip_min :: int
  ip_name :: string

definition MonthInput :: "jsdate option \<Rightarrow> jsdate option \<Rightarrow> jsnum option \<Rightarrow> inputProps" where
  "MonthInput maxDate minDate year =
     (let maxMonth = min_util 12 (monthOfYear maxDate year);
          minMonth = max_util 1 (monthOfYear minDate year)
      in \<lparr>ip_max = maxMonth, ip_min = minMonth, ip_name = ''month''\<rparr>)"

text \<open>
  The select element of the textual month: whether the placeholder option is shown, and
  the twelve month options, each with its value and whether it is disabled.
\<close>

record selectProps =
  sp_name :: string
  sp_placeholderShown :: bool
  sp_options :: "(jsnum \<times> bool) list"

fun falsyNum :: "jsnum option \<Rightarrow> bool" where
  "falsyNum None = True"
| "falsyNum (Some NaN) = True"
| "falsyNum (Some (Num n)) = (n = 0)"

definition MonthSelect ::
  "jsdate option \<Rightarrow> jsdate option \<Rightarrow> jsnum option \<Rightarrow> jsnum option \<Rightarrow> selectProps" where
  "MonthSelect maxDate minDate v year =
     (let maxMonth = min_util 12 (monthOfYear maxDate year);
          minMonth = max_util 1 (monthOfYear minDate year);
          dates = map (\<lambda>index. newDate (Num 2019) (Num index) (Num 1)) [0..11]
      in \<lparr>sp_name = ''month'',
          sp_placeholderShown = falsyNum v,
          sp_options = map (\<lambda>date.
            (let month = getMonthHuman date;
                 disabled = (jsLess month (Num minMonth) \<or> jsLess (Num maxMonth) month)
             in (month, disabled))) dates\<rparr>)"

section \<open>Examples to evaluate on\<close>

text \<open>
  A platform whose date parser accepts no string, with the decades 2011 to 2020, 2021 to
  2030, and so on; a number input as the segment components render it; and the
  properties of a widget with a change callback and no bounds.
\<close>

definition exampleEnv :: env where
  "exampleEnv =
     \<lparr>dateParse = (\<lambda>s. InvalidDate), decadeStartYear = (\<lambda>y. y - (y - 1) mod 10)\<rparr>"

definition numberInput :: "string \<Rightarrow> string \<Rightarrow> string \<Rightarrow> element" where
  "numberInput name v mx =
     \<lparr>el_tagName = ''INPUT'', el_type = ''number'', el_name = name, el_value = v,
      el_max = Some mx, el_valid = True\<rparr>"


definition exampleProps :: props where
  "exampleProps =
     \<lparr>p_value = Single Null, p_minDate = None, p_maxDate = None, p_maxDetail = ''month'',
      p_returnValue = ''start'', p_onChange = True, p_isCalendarOpen = None,
      p_autoFocus = False, p_showLeadingZeros = False\<rparr>"

definition exampleState :: state where
  "exampleState =
     \<lparr>st_year = Some (Num 2023), st_month = Some (Num 7), st_day = None,
      st_value = None, st_isCalendarOpen = None\<rparr>"

section \<open>Calendar arithmetic\<close>

lemmas date_evals = carryDays.simps daysInMonth_def isLeapYear_def timeClip_def timeValue_def
  dayFromYear_def daysBeforeMonth_def msPerDay_def

lemmas parse_evals = parseInt_def isWhiteSpace_def isDigit_def digitOf_def Let_def

lemma upto_from_0:
  "[0..0] = [0::int]" "[0..1] = [0, 1::int]" "[0..2] = [0, 1, 2::int]"
  "[0..3] = [0, 1, 2, 3::int]" "[0..4] = [0, 1, 2, 3, 4::int]"
  "[0..5] = [0, 1, 2, 3, 4, 5::int]" "[0..6] = [0, 1, 2, 3, 4, 5, 6::int]"
  "[0..7] = [0, 1, 2, 3, 4, 5, 6, 7::int]" "[0..8] = [0, 1, 2, 3, 4, 5, 6, 7, 8::int]"
  "[0..9] = [0, 1, 2, 3, 4, 5, 6, 7, 8, 9::int]"
  "[0..10] = [0, 1, 2, 3, 4, 5, 6, 7, 8, 9, 10::int]"
  "[0..11] = [0, 1, 2, 3, 4, 5, 6, 7, 8, 9, 10, 11::int]"
  by (simp_all add: upto_rec1)

lemma upto_1_12: "[1..12] = [1, 2, 3, 4, 5, 6, 7, 8, 9, 10, 11, 12 :: int]"
  by (simp add: upto_rec1)

text \<open>One more in the dividend raises the quotient exactly at the multiples.\<close>

lemma int_div_succ:
  assumes "0 < (k::int)"
  shows "(a + 1) div k = a div k + (if (a + 1) mod k = 0 then 1 else 0)"
proof (cases "a mod k + 1 = k")
  case True
  have "k * (a div k) + a mod k = a" by simp
  then have "a + 1 = k * (a div k) + k" using True by linarith
  then have e: "a + 1 = k * (a div k + 1) + 0" by (simp add: algebra_simps)
  have "(a + 1) div k = a div k + 1"
    by (rule int_div_pos_eq [OF e]) (use assms in simp_all)
  moreover have "(a + 1) mod k = 0"
    by (rule int_mod_pos_eq [OF e]) (use assms in simp_all)
  ultimately show ?thesis by simp
next
  case False
  have "a mod k < k" "0 \<le> a mod k" using assms by simp_all
  with False have r: "0 \<le> a mod k + 1" "a mod k + 1 < k" by simp_all
  have e: "a + 1 = k * (a div k) + (a mod k + 1)" by simp
  have "(a + 1) div k = a div k"
    by (rule int_div_pos_eq [OF e r])
  moreover have "(a + 1) mod k = a mod k + 1"
    by (rule int_mod_pos_eq [OF e r])
  moreover have "0 \<le> a mod k" using assms by simp
  ultimately show ?thesis by simp
qed

lemma shift_mod:
  "((y::int) + 1 - 1969) mod 4 = y mod 4"
  "((y::int) + 1 - 1901) mod 100 = y mod 100"
  "((y::int) + 1 - 1601) mod 400 = y mod 400"
proof -
  have "y + 1 - 1969 = y + 4 * (- 492)" "y + 1 - 1901 = y + 100 * (- 19)"
    "y + 1 - 1601 = y + 400 * (- 4)" by simp_all
  then show "(y + 1 - 1969) mod 4 = y mod 4"
    "(y + 1 - 1901) mod 100 = y mod 100" "(y + 1 - 1601) mod 400 = y mod 400"
    by (simp_all only: mod_mult_self2)
qed

lemma div_step:
  assumes "0 < (k::int)" and "(y + 1 - c) mod k = y mod k"
  shows "(y + 1 - c) div k = (y - c) div k + (if y mod k = 0 then 1 else 0)"
proof -
  have "y + 1 - c = (y - c) + 1" by simp
  with int_div_succ [OF assms(1), of "y - c"] assms(2) show ?thesis by (simp only:)
qed

lemma century_facts:
  "(y::int) mod 400 = 0 \<Longrightarrow> y mod 100 = 0" "(y::int) mod 100 = 0 \<Longrightarrow> y mod 4 = 0"
proof -
  have "(100::int) dvd 400" "(4::int) dvd 100" by simp_all
  then show "y mod 400 = 0 \<Longrightarrow> y mod 100 = 0" "y mod 100 = 0 \<Longrightarrow> y mod 4 = 0"
    by (metis dvd_trans mod_eq_0_iff_dvd)+
qed

lemma year_step_linear:
  "365 * (y + 1 - 1970) + (A + i) - (B + j) + (C + k)
     = 365 * (y - 1970) + A - B + C + 365 + i - j + (k::int)"
  by (simp add: algebra_simps)

text \<open>A year has 366 days when it is a leap year and 365 otherwise.\<close>

lemma dayFromYear_Suc:
  "dayFromYear (y + 1) = dayFromYear y + (if isLeapYear y then 366 else 365)"
proof -
  have a: "(y + 1 - 1969) div 4 = (y - 1969) div 4 + (if y mod 4 = 0 then 1 else 0)"
    by (rule div_step [OF _ shift_mod(1)]) simp
  have b: "(y + 1 - 1901) div 100 = (y - 1901) div 100 + (if y mod 100 = 0 then 1 else 0)"
    by (rule div_step [OF _ shift_mod(2)]) simp
  have c: "(y + 1 - 1601) div 400 = (y - 1601) div 400 + (if y mod 400 = 0 then 1 else 0)"
    by (rule div_step [OF _ shift_mod(3)]) simp
  note d = century_facts [of y]
  have "dayFromYear (y + 1) = 365 * (y + 1 - 1970) + (y + 1 - 1969) div 4
      - (y + 1 - 1901) div 100 + (y + 1 - 1601) div 400"
    by (simp only: dayFromYear_def)
  also have "\<dots> = 365 * (y + 1 - 1970) + ((y - 1969) div 4 + (if y mod 4 = 0 then 1 else 0))
      - ((y - 1901) div 100 + (if y mod 100 = 0 then 1 else 0))
      + ((y - 1601) div 400 + (if y mod 400 = 0 then 1 else 0))"
    by (simp only: a b c)
  also have "\<dots> = dayFromYear y + 365 + (if y mod 4 = 0 then 1 else 0)
      - (if y mod 100 = 0 then 1 else 0) + (if y mod 400 = 0 then 1 else 0)"
    unfolding dayFromYear_def by (rule year_step_linear)
  finally have e: "dayFromYear (y + 1) = dayFromYear y + 365 + (if y mod 4 = 0 then 1 else 0)
      - (if y mod 100 = 0 then 1 else 0) + (if y mod 400 = 0 then 1 else 0)" .
  show ?thesis
  proof (cases "y mod 4 = 0")
    case False
    with d have "y mod 100 \<noteq> 0" "y mod 400 \<noteq> 0" by auto
    with False e show ?thesis by (simp add: isLeapYear_def)
  next
    case True
    show ?thesis
    proof (cases "y mod 100 = 0")
      case False
      with d have "y mod 400 \<noteq> 0" by auto
      with True False e show ?thesis by (simp add: isLeapYear_def)
    next
      case h: True
      with True e show ?thesis by (cases "y mod 400 = 0") (simp_all add: isLeapYear_def)
    qed
  qed
qed

lemma dayFromYear_mono_nat: "dayFromYear a \<le> dayFromYear (a + int n)"
proof (induction n)
  case 0 show ?case by simp
next
  case (Suc n)
  have "dayFromYear (a + int n) \<le> dayFromYear ((a + int n) + 1)"
    by (simp only: dayFromYear_Suc split: if_splits) simp
  moreover have "a + int (Suc n) = (a + int n) + 1" by simp
  ultimately show ?case using Suc by (simp only:)
qed

lemma dayFromYear_mono: "a \<le> b \<Longrightarrow> dayFromYear a \<le> dayFromYear b"
  using dayFromYear_mono_nat [of a "nat (b - a)"] by simp

lemma month_index_cases:
  "0 \<le> m \<Longrightarrow> m < 12 \<Longrightarrow>
   m = 0 \<or> m = 1 \<or> m = 2 \<or> m = 3 \<or> m = 4 \<or> m = 5 \<or> m = 6 \<or> m = 7 \<or> m = 8 \<or> m = 9
   \<or> m = 10 \<or> m = (11::int)"
  by arith

lemma daysBeforeMonth_bounds:
  assumes "0 \<le> m" "m < 12"
  shows "0 \<le> daysBeforeMonth y m"
    and "daysBeforeMonth y m + daysInMonth y m \<le> (if isLeapYear y then 366 else 365)"
  using month_index_cases [OF assms]
  by (auto simp: daysBeforeMonth_def daysInMonth_def upto_from_0)

lemma daysBeforeMonth_0 [simp]: "daysBeforeMonth y 0 = 0"
  by (simp add: daysBeforeMonth_def)

lemma daysBeforeMonth_11: "daysBeforeMonth y 11 + 31 = (if isLeapYear y then 366 else 365)"
  by (simp add: daysBeforeMonth_def daysInMonth_def upto_from_0)

text \<open>A valid date lies within its day, its month, its year and its decade.\<close>

lemma day_span:
  assumes "validDate (DateTime y m dd ms)"
  shows "timeValue y m dd 0 \<le> timeValue y m dd ms"
    and "timeValue y m dd ms \<le> timeValue y m dd 86399999"
  using assms by (simp_all add: validDate_def timeValue_def msPerDay_def)

lemma month_span:
  assumes "validDate (DateTime y m dd ms)"
  shows "timeValue y m 1 0 \<le> timeValue y m dd ms"
    and "timeValue y m dd ms \<le> timeValue y m (daysInMonth y m) 86399999"
  using assms by (simp_all add: validDate_def timeValue_def msPerDay_def)

lemma year_span:
  assumes "validDate (DateTime y m dd ms)"
  shows "timeValue y 0 1 0 \<le> timeValue y m dd ms"
    and "timeValue y m dd ms \<le> timeValue y 11 31 86399999"
proof -
  from assms have m: "0 \<le> m" "m < 12" and d: "1 \<le> dd" "dd \<le> daysInMonth y m"
    and s: "0 \<le> ms" "ms < 86400000"
    by (simp_all add: validDate_def)
  from daysBeforeMonth_bounds [OF m, of y] d
  have lo: "0 \<le> daysBeforeMonth y m + dd - 1"
    and hi: "daysBeforeMonth y m + dd \<le> daysBeforeMonth y 11 + 31"
    by (simp_all add: daysBeforeMonth_11)
  have "dayFromYear y * msPerDay \<le> (dayFromYear y + (daysBeforeMonth y m + dd - 1)) * msPerDay"
    using lo by (simp add: msPerDay_def)
  with s show "timeValue y 0 1 0 \<le> timeValue y m dd ms"
    by (simp add: timeValue_def algebra_simps)
  have "(dayFromYear y + (daysBeforeMonth y m + dd - 1)) * msPerDay
      \<le> (dayFromYear y + (daysBeforeMonth y 11 + 31 - 1)) * msPerDay"
    using hi by (simp add: msPerDay_def)
  with s show "timeValue y m dd ms \<le> timeValue y 11 31 86399999"
    by (simp add: timeValue_def algebra_simps)
qed

lemma year_end_before_next: "timeValue y 11 31 86399999 < timeValue (y + 1) 0 1 0"
  using daysBeforeMonth_11 [of y]
  by (simp add: timeValue_def dayFromYear_Suc msPerDay_def split: if_splits)

lemma year_start_mono: "a \<le> b \<Longrightarrow> timeValue a 0 1 0 \<le> timeValue b 0 1 0"
  using dayFromYear_mono [of a b] by (simp add: timeValue_def msPerDay_def)

lemma decade_span:
  assumes "validDate (DateTime y m dd ms)" and "s \<le> y" and "y \<le> s + 9"
  shows "timeValue s 0 1 0 \<le> timeValue y m dd ms"
    and "timeValue y m dd ms \<le> timeValue (s + 9) 11 31 86399999"
proof -
  from year_start_mono [OF assms(2)] year_span(1) [OF assms(1)]
  show "timeValue s 0 1 0 \<le> timeValue y m dd ms" by simp
  show "timeValue y m dd ms \<le> timeValue (s + 9) 11 31 86399999"
  proof (cases "y = s + 9")
    case True
    with year_span(2) [OF assms(1)] show ?thesis by simp
  next
    case False
    with assms(3) have "y + 1 \<le> s + 9" by simp
    from year_start_mono [OF this] year_end_before_next [of y] year_span(2) [OF assms(1)]
    have "timeValue y m dd ms \<le> timeValue (s + 9) 0 1 0" by simp
    also have "\<dots> \<le> timeValue (s + 9) 11 31 86399999"
      by (rule year_span(2)) (simp add: validDate_def daysInMonth_def)
    finally show ?thesis .
  qed
qed

section \<open>Properties of the date-range derivation\<close>

lemma getValueType_views:
  "getValueType ''century'' = Some ''decade''" "getValueType ''decade'' = Some ''year''"
  "getValueType ''year'' = Some ''month''" "getValueType ''month'' = Some ''day''"
  by (simp_all add: getValueType_def allViews_def allValueTypes_def arrayAt_def)

text \<open>A \<open>maxDetail\<close> that is none of the views, \<open>day\<close> for one, has no value type.\<close>

lemma getValueType_other: "maxDetail \<notin> set allViews \<Longrightarrow> getValueType maxDetail = None"
  by (auto simp: getValueType_def allViews_def allValueTypes_def arrayAt_def)

lemma single_from_to:
  assumes "\<not> falsy r" and "newDateOf E r = DateTime y m dd ms"
  shows "getValueFrom E (Single r) = Inr (Some (DateTime y m dd ms))"
    and "getValueTo E (Single r) = Inr (Some (DateTime y m dd ms))"
  using assms
  by (simp_all add: getValueFrom_def getValueTo_def getValueFromRange_def
      parseAndValidateDate_def Let_def)

lemmas derivation_defs = getDetailValueFrom_def getDetailValueTo_def getValueFrom_def
  getValueTo_def getValueFromRange_def parseAndValidateDate_def getValueType_views
  getBegin_def getEnd_def between_def

lemma between_in_bounds:
  assumes "getTime lo = Num t0" and "getTime hi = Num t1" and "t0 \<le> t1"
    and "getTime x = Num tx"
  shows "\<exists>t. getTime (between x (Some lo) (Some hi)) = Num t \<and> t0 \<le> t \<and> t \<le> t1"
  using assms by (auto simp: between_def)

text \<open>
  Claim C1, as the code has it. For a single value that is a valid date and each of the
  views \<open>maxDetail\<close> can name (century, decade, year, month), the start of the range is
  the start, and the end of the range the end, of the unit one level finer than
  \<open>maxDetail\<close> (decade, year, month, day), each then clamped by \<open>between\<close>; the start is
  not after the value and the end not before it. With \<open>maxDetail\<close> month the unit is the
  day: the start is the first and the end the last millisecond of the value's own day.
  With \<open>maxDetail\<close> year the unit is the month: the first day of the value's month and
  its last day.
\<close>

theorem derivation_rounds_to_value_type:
  assumes "maxDetail \<in> set allViews"
    and "\<not> falsy r" and "newDateOf E r = DateTime y m dd ms"
    and "validDate (DateTime y m dd ms)"
    and "decadeStartYear E y \<le> y" and "y \<le> decadeStartYear E y + 9"
  shows "\<exists>b e tb te.
      getValueType maxDetail =
        Some (if maxDetail = ''century'' then ''decade''
              else if maxDetail = ''decade'' then ''year''
              else if maxDetail = ''year'' then ''month'' else ''day'')
    \<and> getBegin E (getValueType maxDetail) (DateTime y m dd ms) = Inr b
    \<and> getEnd E (getValueType maxDetail) (DateTime y m dd ms) = Inr e
    \<and> getDetailValueFrom E (Single r) minDate maxDate maxDetail
          = Inr (Some (between b minDate maxDate))
    \<and> getDetailValueTo E (Single r) minDate maxDate maxDetail
          = Inr (Some (between e minDate maxDate))
    \<and> getTime b = Num tb \<and> getTime e = Num te
    \<and> tb \<le> timeValue y m dd ms \<and> timeValue y m dd ms \<le> te
    \<and> (maxDetail = ''month'' \<longrightarrow>
          b = DateTime y m dd 0 \<and> e = DateTime y m dd 86399999)
    \<and> (maxDetail = ''year'' \<longrightarrow>
          b = DateTime y m 1 0 \<and> e = DateTime y m (daysInMonth y m) 86399999)"
proof -
  note ft = single_from_to [OF assms(2,3)]
  from assms(1) consider "maxDetail = ''century''" | "maxDetail = ''decade''"
    | "maxDetail = ''year''" | "maxDetail = ''month''"
    by (auto simp: allViews_def)
  then show ?thesis
  proof cases
    case 1
    with ft decade_span [OF assms(4,5,6)] show ?thesis
      by (simp add: getValueType_views getBegin_def getEnd_def getDetailValueFrom_def
          getDetailValueTo_def)
  next
    case 2
    with ft year_span [OF assms(4)] show ?thesis
      by (simp add: getValueType_views getBegin_def getEnd_def getDetailValueFrom_def
          getDetailValueTo_def)
  next
    case 3
    with ft month_span [OF assms(4)] show ?thesis
      by (simp add: getValueType_views getBegin_def getEnd_def getDetailValueFrom_def
          getDetailValueTo_def)
  next
    case 4
    with ft day_span [OF assms(4)] show ?thesis
      by (simp add: getValueType_views getBegin_def getEnd_def getDetailValueFrom_def
          getDetailValueTo_def)
  qed
qed

text \<open>
  Claim C1, witness: 15 July 2023 under \<open>maxDetail\<close> month stays within 15 July, and
  under \<open>maxDetail\<close> year spans 1 July to 31 July.
\<close>

theorem derivation_rounds_to_value_type_witness:
  "''month'' \<in> set allViews \<and> ''year'' \<in> set allViews
   \<and> validDate (DateTime 2023 6 15 0)
   \<and> decadeStartYear exampleEnv 2023 \<le> 2023 \<and> 2023 \<le> decadeStartYear exampleEnv 2023 + 9
   \<and> getDetailValueFrom exampleEnv (Single (DateObj (DateTime 2023 6 15 0))) None None ''month''
     = Inr (Some (DateTime 2023 6 15 0))
   \<and> getDetailValueTo exampleEnv (Single (DateObj (DateTime 2023 6 15 0))) None None ''month''
     = Inr (Some (DateTime 2023 6 15 86399999))
   \<and> getDetailValueFrom exampleEnv (Single (DateObj (DateTime 2023 6 15 0))) None None ''year''
     = Inr (Some (DateTime 2023 6 1 0))
   \<and> getDetailValueTo exampleEnv (Single (DateObj (DateTime 2023 6 15 0))) None None ''year''
     = Inr (Some (DateTime 2023 6 31 86399999))"
  using derivation_rounds_to_value_type
      [of "''month''" "DateObj (DateTime 2023 6 15 0)" exampleEnv 2023 6 15 0 None None]
    derivation_rounds_to_value_type
      [of "''year''" "DateObj (DateTime 2023 6 15 0)" exampleEnv 2023 6 15 0 None None]
  by (auto simp: allViews_def validDate_def daysInMonth_def exampleEnv_def between_def)

text \<open>
  Claim C1, counterexample to the claim as stated: with \<open>maxDetail\<close> month, 15 July 2023
  gives a start on the 15th, not on the 1st, and an end on the 15th, not on the 31st.
\<close>

theorem precision_month_counterexample:
  "getDetailValueFrom exampleEnv (Single (DateObj (DateTime 2023 6 15 0))) None None ''month''
     = Inr (Some (DateTime 2023 6 15 0))
   \<and> getDetailValueTo exampleEnv (Single (DateObj (DateTime 2023 6 15 0))) None None ''month''
     = Inr (Some (DateTime 2023 6 15 86399999))
   \<and> getDate (DateTime 2023 6 15 0) \<noteq> Num 1
   \<and> getDate (DateTime 2023 6 15 86399999) \<noteq> Num 31"
  by (simp add: derivation_defs)

text \<open>
  Claim C2, as the code has it. For \<open>maxDetail\<close> year on 15 July 2023 with \<open>minDate\<close>
  1 March 2023 and no \<open>maxDate\<close>, the unit is the month: the start is 1 July 2023 and
  the end 31 July 2023, both left as they are by the clamping. The start 1 March 2023
  (the start of the year, clamped to \<open>minDate\<close>) and the end 31 December 2023 are what
  \<open>maxDetail\<close> decade gives, whose unit is the year. Clamping between two bounds in
  order always gives a date within them.
\<close>

theorem year_view_derivation_clamped:
  "getDetailValueFrom E (Single (DateObj (DateTime 2023 6 15 0)))
       (Some (DateTime 2023 2 1 0)) None ''year'' = Inr (Some (DateTime 2023 6 1 0))
   \<and> getDetailValueTo E (Single (DateObj (DateTime 2023 6 15 0)))
       (Some (DateTime 2023 2 1 0)) None ''year'' = Inr (Some (DateTime 2023 6 31 86399999))
   \<and> getDetailValueFrom E (Single (DateObj (DateTime 2023 6 15 0)))
       (Some (DateTime 2023 2 1 0)) None ''decade'' = Inr (Some (DateTime 2023 2 1 0))
   \<and> getDetailValueTo E (Single (DateObj (DateTime 2023 6 15 0)))
       (Some (DateTime 2023 2 1 0)) None ''decade'' = Inr (Some (DateTime 2023 11 31 86399999))
   \<and> (getTime lo = Num t0 \<and> getTime hi = Num t1 \<and> t0 \<le> t1 \<and> getTime x = Num tx \<longrightarrow>
        (\<exists>t. getTime (between x (Some lo) (Some hi)) = Num t \<and> t0 \<le> t \<and> t \<le> t1))"
proof -
  have a: "getDetailValueFrom E (Single (DateObj (DateTime 2023 6 15 0)))
       (Some (DateTime 2023 2 1 0)) None ''year'' = Inr (Some (DateTime 2023 6 1 0))"
    by (simp add: derivation_defs date_evals upto_from_0)
  have b: "getDetailValueTo E (Single (DateObj (DateTime 2023 6 15 0)))
       (Some (DateTime 2023 2 1 0)) None ''year'' = Inr (Some (DateTime 2023 6 31 86399999))"
    by (simp add: derivation_defs date_evals upto_from_0)
  have c: "getDetailValueFrom E (Single (DateObj (DateTime 2023 6 15 0)))
       (Some (DateTime 2023 2 1 0)) None ''decade'' = Inr (Some (DateTime 2023 2 1 0))"
    by (simp add: derivation_defs date_evals upto_from_0)
  have d: "getDetailValueTo E (Single (DateObj (DateTime 2023 6 15 0)))
       (Some (DateTime 2023 2 1 0)) None ''decade'' = Inr (Some (DateTime 2023 11 31 86399999))"
    by (simp add: derivation_defs date_evals upto_from_0)
  from a b c d between_in_bounds [of lo t0 hi t1 x tx] show ?thesis by blast
qed

text \<open>
  Claim C2, witness: the derivation on the example platform, and 1 January 2023 clamped
  between 1 March and 31 December 2023.
\<close>

theorem year_view_derivation_clamped_witness:
  "getDetailValueFrom exampleEnv (Single (DateObj (DateTime 2023 6 15 0)))
       (Some (DateTime 2023 2 1 0)) None ''year'' = Inr (Some (DateTime 2023 6 1 0))
   \<and> timeValue 2023 2 1 0 \<le> timeValue 2023 11 31 0
   \<and> (\<exists>t. getTime (between (DateTime 2023 0 1 0) (Some (DateTime 2023 2 1 0))
              (Some (DateTime 2023 11 31 0))) = Num t
          \<and> timeValue 2023 2 1 0 \<le> t \<and> t \<le> timeValue 2023 11 31 0)"
  using year_view_derivation_clamped
      [of exampleEnv "DateTime 2023 2 1 0" "timeValue 2023 2 1 0" "DateTime 2023 11 31 0"
        "timeValue 2023 11 31 0" "DateTime 2023 0 1 0" "timeValue 2023 0 1 0"]
  by (simp add: date_evals upto_from_0)

text \<open>
  Claim C2, counterexample to the claim as stated: with \<open>maxDetail\<close> year the start is
  1 July 2023, not 1 March 2023, and the end lies in July, not in December.
\<close>

theorem precision_year_counterexample:
  "getDetailValueFrom exampleEnv (Single (DateObj (DateTime 2023 6 15 0)))
       (Some (DateTime 2023 2 1 0)) None ''year'' = Inr (Some (DateTime 2023 6 1 0))
   \<and> getDetailValueTo exampleEnv (Single (DateObj (DateTime 2023 6 15 0)))
       (Some (DateTime 2023 2 1 0)) None ''year'' = Inr (Some (DateTime 2023 6 31 86399999))
   \<and> DateTime 2023 6 1 0 \<noteq> DateTime 2023 2 1 0
   \<and> getMonthHuman (DateTime 2023 6 31 86399999) \<noteq> Num 12"
  by (simp add: derivation_defs date_evals upto_from_0)

text \<open>
  Claim C5. When the value is an array, \<open>getDetailValueArray\<close> returns that array as it
  is, whatever its elements, the bounds and \<open>maxDetail\<close>: nothing is rounded or clamped.
\<close>

theorem getDetailValueArray_verbatim:
  "getDetailValueArray E (Array xs) minDate maxDate maxDetail = Inr xs"
  by (simp add: getDetailValueArray_def)

text \<open>
  Claim C5, witness: a pair of a string and a date outside the bounds comes back
  unchanged.
\<close>

theorem getDetailValueArray_verbatim_witness:
  "getDetailValueArray exampleEnv (Array [Str ''2023-07-15'', DateObj (DateTime 1999 0 1 5)])
     (Some (DateTime 2023 0 1 0)) (Some (DateTime 2023 11 31 0)) ''century''
   = Inr [Str ''2023-07-15'', DateObj (DateTime 1999 0 1 5)]"
  using getDetailValueArray_verbatim
      [of exampleEnv "[Str ''2023-07-15'', DateObj (DateTime 1999 0 1 5)]"]
  by simp

text \<open>
  Claim C6. An absent or empty candidate (\<open>undefined\<close>, \<open>null\<close>, the empty string) gives
  an absent result and no error; a candidate that is not empty and whose Date is invalid
  gives the invalid-date error; any other candidate gives its Date.
\<close>

theorem parseAndValidateDate_cases:
  "parseAndValidateDate E Undefined = Inr None
   \<and> parseAndValidateDate E Null = Inr None
   \<and> parseAndValidateDate E (Str []) = Inr None
   \<and> (falsy r \<longrightarrow> parseAndValidateDate E r = Inr None)
   \<and> (\<not> falsy r \<and> newDateOf E r = InvalidDate
        \<longrightarrow> parseAndValidateDate E r = Inl (InvalidDateError r))
   \<and> (\<not> falsy r \<and> newDateOf E r \<noteq> InvalidDate
        \<longrightarrow> parseAndValidateDate E r = Inr (Some (newDateOf E r)))"
  by (cases "newDateOf E r") (auto simp: parseAndValidateDate_def Let_def)

text \<open>
  Claim C6, witness: a string the platform cannot parse raises the error, the empty
  string does not.
\<close>

theorem parseAndValidateDate_cases_witness:
  "\<not> falsy (Str ''not a date'') \<and> newDateOf exampleEnv (Str ''not a date'') = InvalidDate
   \<and> parseAndValidateDate exampleEnv (Str ''not a date'')
       = Inl (InvalidDateError (Str ''not a date''))
   \<and> falsy (Str []) \<and> parseAndValidateDate exampleEnv (Str []) = Inr None"
  using parseAndValidateDate_cases [of exampleEnv "Str ''not a date''"]
    parseAndValidateDate_cases [of exampleEnv "Str []"]
  by (simp add: exampleEnv_def)

section \<open>Properties of the value projection\<close>

text \<open>
  Claim C7. The return mode selects the projection: \<open>start\<close> the start of the range,
  \<open>end\<close> the end of the range, \<open>range\<close> the array, which for a single candidate is the
  pair of the two; any other mode raises the invalid-return-value error when the value
  is asked for.
\<close>

theorem getProcessedValue_modes:
  "(p_returnValue P = ''start'' \<longrightarrow>
      getProcessedValue E P v =
        map_sum id PDate (getDetailValueFrom E v (p_minDate P) (p_maxDate P) (p_maxDetail P)))
   \<and> (p_returnValue P = ''end'' \<longrightarrow>
      getProcessedValue E P v =
        map_sum id PDate (getDetailValueTo E v (p_minDate P) (p_maxDate P) (p_maxDetail P)))
   \<and> (p_returnValue P = ''range'' \<longrightarrow>
      getProcessedValue E P v =
        map_sum id PArray (getDetailValueArray E v (p_minDate P) (p_maxDate P) (p_maxDetail P)))
   \<and> (p_returnValue P = ''range''
        \<and> getDetailValueFrom E (Single r) (p_minDate P) (p_maxDate P) (p_maxDetail P) = Inr s
        \<and> getDetailValueTo E (Single r) (p_minDate P) (p_maxDate P) (p_maxDetail P) = Inr e
      \<longrightarrow> getProcessedValue E P (Single r) = Inr (PArray [rawOf s, rawOf e]))
   \<and> (p_returnValue P \<notin> {''start'', ''end'', ''range''} \<longrightarrow>
      getProcessedValue E P v = Inl InvalidReturnValue)"
  by (auto simp: getProcessedValue_def getDetailValueArray_def Let_def split: sum.splits)

text \<open>
  Claim C7, witness: 15 July 2023 under \<open>maxDetail\<close> month in the modes \<open>range\<close> and
  \<open>both\<close>, the second of which is no mode.
\<close>

theorem getProcessedValue_modes_witness:
  "getProcessedValue exampleEnv (exampleProps\<lparr>p_returnValue := ''range''\<rparr>)
       (Single (DateObj (DateTime 2023 6 15 0)))
     = Inr (PArray [DateObj (DateTime 2023 6 15 0), DateObj (DateTime 2023 6 15 86399999)])
   \<and> ''both'' \<notin> {''start'', ''end'', ''range''}
   \<and> getProcessedValue exampleEnv (exampleProps\<lparr>p_returnValue := ''both''\<rparr>)
       (Single (DateObj (DateTime 2023 6 15 0)))
     = Inl InvalidReturnValue"
  using getProcessedValue_modes
      [of "exampleProps\<lparr>p_returnValue := ''range''\<rparr>" exampleEnv
        "Single (DateObj (DateTime 2023 6 15 0))" "DateObj (DateTime 2023 6 15 0)"
        "Some (DateTime 2023 6 15 0)" "Some (DateTime 2023 6 15 86399999)"]
    getProcessedValue_modes
      [of "exampleProps\<lparr>p_returnValue := ''both''\<rparr>" exampleEnv
        "Single (DateObj (DateTime 2023 6 15 0))"]
  by (simp add: exampleProps_def getDetailValueArray_def derivation_defs)

section \<open>Properties of the segment edits\<close>

lemma numberInput_sel:
  "el_value (numberInput name v mx) = v" "el_valid (numberInput name v mx) = True"
  "el_name (numberInput name v mx) = name" "el_max (numberInput name v mx) = Some mx"
  by (simp_all add: numberInput_def)




text \<open>
  Assembling a valid triple and decomposing the date gives the triple back whenever the
  year is not one of 0 to 99 and the date is within the range of time values.
\<close>

lemma carryDays_in_month:
  "1 \<le> d \<Longrightarrow> d \<le> daysInMonth y m \<Longrightarrow> carryDays y m d = (y, m, d)"
  by (simp add: carryDays.simps)

lemma assemble_decompose:
  assumes "1 \<le> m" and "m \<le> 12" and "1 \<le> d" and "d \<le> daysInMonth y (m - 1)"
    and "y < 0 \<or> 99 < y" and "\<bar>timeValue y (m - 1) d 0\<bar> \<le> 8640000000000000"
  shows "segmentsOf (Some (newDate (Num y) (jsSub (Num m) (Num 1)) (Num d)))
           = (Some (Num y), Some (Num m), Some (Num d))"
proof -
  from assms(1,2) have "(m - 1) div 12 = 0" "(m - 1) mod 12 = m - 1" by simp_all
  moreover from assms(5) have "(if 0 \<le> y \<and> y \<le> 99 then 1900 + y else y) = y" by auto
  ultimately have "newDate (Num y) (jsSub (Num m) (Num 1)) (Num d) = DateTime y (m - 1) d 0"
    using carryDays_in_month [OF assms(3,4)] assms(6)
    by (simp add: timeClip_def)
  then show ?thesis by (simp add: segmentsOf_def)
qed

text \<open>
  Claim C4, at the input where the code departs from it. Day 1, month 1, year 50 is a
  valid calendar triple; assembled and decomposed it comes back as year 1950, and a
  widget whose segments hold it calls the change callback with 1 January 1950.
\<close>

theorem assemble_two_digit_year:
  "validDate (DateTime 50 0 1 0)
   \<and> segmentsOf (Some (newDate (Num 50) (jsSub (Num 1) (Num 1)) (Num 1)))
        = (Some (Num 1950), Some (Num 1), Some (Num 1))
   \<and> onChangeExternal exampleEnv exampleProps
        \<lparr>dayInput = Some (numberInput ''day'' ''1'' ''31''),
         monthInput = Some (numberInput ''month'' ''1'' ''12''),
         yearInput = Some (numberInput ''year'' ''50'' ''275760'')\<rparr>
        = Inr (Some (PDate (Some (DateTime 1950 0 1 0)), False))"
proof -
  have n: "newDate (Num 50) (Num 0) (Num 1) = DateTime 1950 0 1 0"
    by (simp add: date_evals)
  have p: "proposedValue [numberInput ''day'' ''1'' ''31'', numberInput ''month'' ''1'' ''12'',
      numberInput ''year'' ''50'' ''275760''] = DateTime 1950 0 1 0"
    by (simp add: proposedValue_def valuesOf_def numberInput_def parseIntOf_def parseIntOr1_def
        parse_evals date_evals)
  have "onChangeExternal exampleEnv exampleProps
        \<lparr>dayInput = Some (numberInput ''day'' ''1'' ''31''),
         monthInput = Some (numberInput ''month'' ''1'' ''12''),
         yearInput = Some (numberInput ''year'' ''50'' ''275760'')\<rparr>
        = Inr (Some (PDate (Some (DateTime 1950 0 1 0)), False))"
    unfolding onChangeExternal_def formElements_def
    by (simp add: List.map_filter_simps p numberInput_sel exampleProps_def
        getProcessedValue_def derivation_defs)
  with n show ?thesis
    by (simp add: validDate_def daysInMonth_def segmentsOf_def)
qed

section \<open>Properties of the focus advancement\<close>





section \<open>Properties of the renderers\<close>

text \<open>
  Claim C9. The day renderer succeeds on a token run of length at most 2 and raises the
  unsupported-token error on a longer one; the month renderer raises it on a run longer
  than 4, renders the textual month select for a run of length 3 or 4 (short for 3),
  and the numeric month input for a run of length at most 2.
\<close>

theorem render_token_lengths:
  "(length tok \<le> 2 \<longrightarrow>
      renderDay P st tok i =
        Inr (DayInputEl (i = 0 \<and> p_autoFocus P) (length tok = 2 \<or> p_showLeadingZeros P)
               (st_day st) (st_month st) (st_year st)))
   \<and> (2 < length tok \<longrightarrow> renderDay P st tok i = Inl (UnsupportedToken tok))
   \<and> (4 < length tok \<longrightarrow> renderMonth P st tok i = Inl (UnsupportedToken tok))
   \<and> (3 \<le> length tok \<and> length tok \<le> 4 \<longrightarrow>
        renderMonth P st tok i =
          Inr (MonthSelectEl (i = 0 \<and> p_autoFocus P) (length tok = 3)
                 (st_month st) (st_year st)))
   \<and> (length tok \<le> 2 \<longrightarrow>
        renderMonth P st tok i =
          Inr (MonthInputEl (i = 0 \<and> p_autoFocus P) (length tok = 2 \<or> p_showLeadingZeros P)
                 (st_month st) (st_year st)))"
  by (auto simp: renderDay_def renderMonth_def Let_def)

text \<open>
  Claim C9, witness: \<open>dd\<close> renders a day input and \<open>ddd\<close> does not; \<open>MMM\<close> renders the
  month select and \<open>MMMMM\<close> does not.
\<close>

theorem render_token_lengths_witness:
  "renderDay exampleProps exampleState ''dd'' 0
     = Inr (DayInputEl False True None (Some (Num 7)) (Some (Num 2023)))
   \<and> renderDay exampleProps exampleState ''ddd'' 0 = Inl (UnsupportedToken ''ddd'')
   \<and> renderMonth exampleProps exampleState ''MMM'' 2
     = Inr (MonthSelectEl False True (Some (Num 7)) (Some (Num 2023)))
   \<and> renderMonth exampleProps exampleState ''MMMMM'' 2 = Inl (UnsupportedToken ''MMMMM'')"
  using render_token_lengths [of "''dd''" exampleProps exampleState 0]
    render_token_lengths [of "''ddd''" exampleProps exampleState 0]
    render_token_lengths [of "''MMM''" exampleProps exampleState 2]
    render_token_lengths [of "''MMMMM''" exampleProps exampleState 2]
  by (simp add: exampleProps_def exampleState_def)

section \<open>Properties of the month segment\<close>

lemma month_dates:
  "map (\<lambda>index. newDate (Num 2019) (Num index) (Num 1)) [0, 1, 2, 3, 4, 5, 6, 7, 8, 9, 10, 11]
     = map (\<lambda>index. DateTime 2019 index 1 0) [0, 1, 2, 3, 4, 5, 6, 7, 8, 9, 10, 11]"
  by (simp add: date_evals upto_from_0)

lemma monthOfYear_cases:
  "monthOfYear date year =
     (case date of
        Some (DateTime y m dd ms) \<Rightarrow> if year = Some (Num y) then VNum (Num (m + 1)) else VFalse
      | Some InvalidDate \<Rightarrow> VFalse
      | None \<Rightarrow> VUndefined)"
  by (cases date; cases year; simp add: monthOfYear_def split: jsdate.splits jsnum.splits)
    (metis jsnum.exhaust strictEq.simps)+

text \<open>
  Claim C10. With bounds that are valid dates, the maximum of the numeric month input is
  the human month of \<open>maxDate\<close> when \<open>maxDate\<close> is given and the year segment equals its
  year, and 12 otherwise; the minimum is the human month of \<open>minDate\<close> when \<open>minDate\<close> is
  given and the year segment equals its year, and 1 otherwise; and the month select
  offers the months 1 to 12 and disables exactly those below that minimum or above that
  maximum.
\<close>

theorem month_bounds_follow_year:
  assumes "\<forall>d. maxDate = Some d \<longrightarrow> validDate d" and "\<forall>d. minDate = Some d \<longrightarrow> validDate d"
  shows "ip_max (MonthInput maxDate minDate year) =
           (case maxDate of
              Some d \<Rightarrow>
                if Some (getYear d) = year
                then (case getMonthHuman d of Num k \<Rightarrow> k | NaN \<Rightarrow> 12) else 12
            | None \<Rightarrow> 12)
       \<and> ip_min (MonthInput maxDate minDate year) =
           (case minDate of
              Some d \<Rightarrow>
                if Some (getYear d) = year
                then (case getMonthHuman d of Num k \<Rightarrow> k | NaN \<Rightarrow> 1) else 1
            | None \<Rightarrow> 1)
       \<and> sp_options (MonthSelect maxDate minDate v year) =
           map (\<lambda>k. (Num k, k < ip_min (MonthInput maxDate minDate year)
                          \<or> ip_max (MonthInput maxDate minDate year) < k)) [1..12]"
proof -
  have mx: "ip_max (MonthInput maxDate minDate year) =
           (case maxDate of
              Some d \<Rightarrow>
                if Some (getYear d) = year
                then (case getMonthHuman d of Num k \<Rightarrow> k | NaN \<Rightarrow> 12) else 12
            | None \<Rightarrow> 12)"
    using assms(1)
    by (auto simp: MonthInput_def Let_def min_util_def monthOfYear_cases validDate_def
        split: option.splits jsdate.splits)
  have mn: "ip_min (MonthInput maxDate minDate year) =
           (case minDate of
              Some d \<Rightarrow>
                if Some (getYear d) = year
                then (case getMonthHuman d of Num k \<Rightarrow> k | NaN \<Rightarrow> 1) else 1
            | None \<Rightarrow> 1)"
    using assms(2)
    by (auto simp: MonthInput_def Let_def max_util_def monthOfYear_cases validDate_def
        split: option.splits jsdate.splits)
  have sel: "sp_options (MonthSelect maxDate minDate v year) =
           map (\<lambda>k. (Num k, k < ip_min (MonthInput maxDate minDate year)
                          \<or> ip_max (MonthInput maxDate minDate year) < k)) [1..12]"
    unfolding MonthSelect_def Let_def upto_from_0 upto_1_12 month_dates
    by (simp add: MonthInput_def Let_def)
  from mx mn sel show ?thesis by simp
qed

text \<open>
  Claim C10, witness: bounds 1 March 2023 and 15 July 2023. In the year 2023 the month
  runs from 3 to 7, in the year 2022 from 1 to 12.
\<close>

theorem month_bounds_follow_year_witness:
  "validDate (DateTime 2023 6 15 0) \<and> validDate (DateTime 2023 2 1 0)
   \<and> ip_max (MonthInput (Some (DateTime 2023 6 15 0)) (Some (DateTime 2023 2 1 0))
        (Some (Num 2023))) = 7
   \<and> ip_min (MonthInput (Some (DateTime 2023 6 15 0)) (Some (DateTime 2023 2 1 0))
        (Some (Num 2023))) = 3
   \<and> ip_max (MonthInput (Some (DateTime 2023 6 15 0)) (Some (DateTime 2023 2 1 0))
        (Some (Num 2022))) = 12
   \<and> ip_min (MonthInput (Some (DateTime 2023 6 15 0)) (Some (DateTime 2023 2 1 0))
        (Some (Num 2022))) = 1"
  using month_bounds_follow_year
      [of "Some (DateTime 2023 6 15 0)" "Some (DateTime 2023 2 1 0)" "Some (Num 2023)"]
    month_bounds_follow_year
      [of "Some (DateTime 2023 6 15 0)" "Some (DateTime 2023 2 1 0)" "Some (Num 2022)"]
  by (simp add: validDate_def daysInMonth_def)

end
